theory Spec2Isabelle
  imports Complex_Main "HOL-Library.Word" "HOL-Library.Sublist"
begin

section \<open>JavaScript strings and numbers, as \<^verbatim>\<open>backend/app.js\<close> uses them\<close>

text \<open>
  A JavaScript string is a sequence of UTF-16 code units, and \<^verbatim>\<open>.length\<close> counts
  code units. A string of the program is therefore a list of 16-bit words. The literals of
  the source are ASCII (one en dash apart), so they are written as HOL strings and
  converted unit by unit with \<open>lit\<close>.
\<close>

type_synonym code_unit = "16 word"
type_synonym jsstring = "code_unit list"

definition lit :: "string \<Rightarrow> jsstring" where
  "lit s = map of_char s"

definition LF :: code_unit where
  "LF = 0x0A"

text \<open>
  The numbers of the fallback generator are week counts: non-negative integers read from
  a run of decimal digits, compared with 0, 1, 2 and 3, multiplied by 0.7 and rounded up,
  incremented or decremented once, and printed. They are modelled as mathematical
  integers (\<open>int\<close>) and the product with 0.7 as a real number; \<^verbatim>\<open>NaN\<close> is
  \<open>None\<close>.

  JavaScript computes in IEEE binary64, and the model is the source only on a range:
  \<^item> \<^verbatim>\<open>parseInt\<close> is exact up to \<open>2^53\<close> and rounds a longer run of digits (to
    \<^verbatim>\<open>Infinity\<close> from about 309 digits);
  \<^item> \<^verbatim>\<open>Math.ceil(durationWeeks * 0.7)\<close> is the exact ceiling for every week count
    below \<open>2^40\<close> (lemma \<open>ceil_weeks_double\<close> below) and differs from it for some
    larger counts (\<open>844424930131973\<close> is one);
  \<^item> a number is printed in plain decimal below \<open>10^21\<close> and in exponent notation
    from there.

  Rounding a week count does not change whether it is 0, or greater than 1, 2 or 3, so
  the statements that only read these comparisons hold of the source for every duration.
  A statement that reads a printed number or the ceiling is made for week counts below
  \<open>2^40\<close> only.
\<close>

text \<open>\<^verbatim>\<open>String(n)\<close> for an integer \<open>n\<close>, as the template literal interpolates a number.\<close>

fun nat_digits :: "nat \<Rightarrow> jsstring" where
  "nat_digits n =
     (if n < 10 then [of_nat (48 + n)]
      else nat_digits (n div 10) @ [of_nat (48 + n mod 10)])"

declare nat_digits.simps [simp del]

definition number_to_string :: "int \<Rightarrow> jsstring" where
  "number_to_string i =
     (if i < 0 then lit ''-'' @ nat_digits (nat (- i)) else nat_digits (nat i))"

text \<open>\<^verbatim>\<open>Math.ceil(durationWeeks * 0.7)\<close>\<close>

definition ceil_weeks :: "int \<Rightarrow> int" where
  "ceil_weeks durationWeeks = \<lceil>real_of_int durationWeeks * 0.7\<rceil>"

text \<open>
  The binary64 number that the literal \<^verbatim>\<open>0.7\<close> denotes (\<^verbatim>\<open>0x3FE6666666666666\<close>):
  it is \<open>1 / (5 * 2^52)\<close> below 0.7.
\<close>

definition double_07 :: real where
  "double_07 = 3152519739159347 / 2 ^ 52"

text \<open>
  \<^verbatim>\<open>duration.match(/\d+/)\<close>: \<^verbatim>\<open>null\<close> when the string has no decimal digit,
  otherwise (an array holding) the leftmost maximal run of digits.
\<close>

definition is_digit :: "code_unit \<Rightarrow> bool" where
  "is_digit c \<longleftrightarrow> 0x30 \<le> c \<and> c \<le> 0x39"

definition match_digits :: "jsstring \<Rightarrow> jsstring option" where
  "match_digits s =
     (let r = dropWhile (\<lambda>c. \<not> is_digit c) s
      in if r = [] then None else Some (takeWhile is_digit r))"

text \<open>
  \<^verbatim>\<open>parseInt\<close> of the result of the match: \<^verbatim>\<open>parseInt(null)\<close> reads the
  string \<^verbatim>\<open>"null"\<close> and is \<^verbatim>\<open>NaN\<close>; an array of one digit run converts to that
  run, which is read in base 10.
\<close>

definition digits_value :: "jsstring \<Rightarrow> int" where
  "digits_value ds = foldl (\<lambda>a c. 10 * a + (uint c - 48)) 0 ds"

definition parseInt :: "jsstring option \<Rightarrow> int option" where
  "parseInt m = (case m of None \<Rightarrow> None | Some ds \<Rightarrow> Some (digits_value ds))"

text \<open>\<^verbatim>\<open>x || 4\<close> on a number: \<^verbatim>\<open>NaN\<close> and 0 are falsy.\<close>

definition or_default :: "int option \<Rightarrow> int \<Rightarrow> int" where
  "or_default x d = (case x of None \<Rightarrow> d | Some n \<Rightarrow> if n = 0 then d else n)"

section \<open>The fallback plan generator\<close>

text \<open>
  The template literal of \<^verbatim>\<open>generateFallbackPlan\<close>, as a function of the five
  variables in scope, in two parts: its first three lines, which interpolate the four
  request fields, and the rest, which reads only \<^verbatim>\<open>durationWeeks\<close>. Each source
  line of the template is one line here; a line break of the template is the code unit
  \<open>LF\<close>.
\<close>

definition fallback_head :: "jsstring \<Rightarrow> jsstring \<Rightarrow> jsstring \<Rightarrow> jsstring \<Rightarrow> jsstring" where
  "fallback_head subject level duration goals =
     lit ''Study Plan for '' @ subject @ lit '' ('' @ level @ lit '' Level)'' @ [LF] @
     lit ''Duration: '' @ duration @ [LF] @
     lit ''Goals: '' @ goals @ [LF]"

definition fallback_body :: "int \<Rightarrow> jsstring" where
  "fallback_body durationWeeks =
     [LF] @
     lit ''=== STUDY PLAN OVERVIEW ==='' @ [LF] @
     [LF] @
     lit ''Phase 1: Foundation (Week 1'' @
       (if durationWeeks > 2 then lit ''-2'' else lit '''') @ lit '')'' @ [LF] @
     lit ''- Review fundamental concepts'' @ [LF] @
     lit ''- Gather materials'' @ [LF] @
     lit ''- Establish routine (1-2 hrs/day)'' @ [LF] @
     lit ''- Do basic exercises'' @ [LF] @
     [LF] @
     lit ''Phase 2: Core Learning (Week '' @
       (if durationWeeks > 2
        then lit ''3-'' @ number_to_string (ceil_weeks durationWeeks)
        else lit ''2'') @ lit '')'' @ [LF] @
     lit ''- Deep dive into core topics'' @ [LF] @
     lit ''- Practice problem-solving'' @ [LF] @
     lit ''- Create notes/mind maps'' @ [LF] @
     [LF] @
     lit ''Phase 3: Advanced Application (Week '' @
       number_to_string (ceil_weeks durationWeeks + 1) @ lit ''-'' @
       number_to_string (durationWeeks - 1) @ lit '')'' @ [LF] @
     lit ''- Complex topics + real-world use'' @ [LF] @
     lit ''- Case studies and scenarios'' @ [LF] @
     lit ''- Integration of topics'' @ [LF] @
     [LF] @
     lit ''Phase 4: Review & Mastery (Final Week)'' @ [LF] @
     lit ''- Final revision'' @ [LF] @
     lit ''- Mock tests'' @ [LF] @
     lit ''- Confidence boosting'' @ [LF] @
     [LF] @
     lit ''=== DAILY STRUCTURE ==='' @ [LF] @
     [LF] @
     lit ''Morning: Recap previous, prep new (~30 min)'' @ [LF] @
     lit ''Midday: Learn/practice new (~60'' @ [0x2013] @ lit ''90 min)'' @ [LF] @
     lit ''Evening: Summarize & plan (~15 min)'' @ [LF] @
     [LF] @
     lit ''=== WEEKLY MILESTONES ==='' @ [LF] @
     [LF] @
     lit ''Week 1: Foundation'' @ [LF] @
     lit ''Week 2: Core modules'' @ [LF] @
     (if durationWeeks > 2 then lit ''Week 3: Applications'' @ [LF] else lit '''') @
       (if durationWeeks > 3 then lit ''Week 4: Mastery'' @ [LF] else lit '''') @
       lit ''Final Week: Goal ready!'' @ [LF] @
     [LF] @
     lit ''Tips:'' @ [LF] @
     lit ''- Use Pomodoro'' @ [LF] @
     lit ''- Review often'' @ [LF] @
     lit ''- Join groups / Ask questions'' @ [LF] @
     lit ''- Be consistent'' @ [LF] @
     [LF] @
     lit ''(This is a fallback plan when AI is unavailable.)''"

definition fallback_template ::
  "jsstring \<Rightarrow> jsstring \<Rightarrow> jsstring \<Rightarrow> jsstring \<Rightarrow> int \<Rightarrow> jsstring" where
  "fallback_template subject level duration goals durationWeeks =
     fallback_head subject level duration goals @ fallback_body durationWeeks"

text \<open>
  \<^verbatim>\<open>generateFallbackPlan(subject, level, duration, goals)\<close>. The source also
  computes \<^verbatim>\<open>weeksText\<close>, which the template never uses.
\<close>

definition durationWeeks_of :: "jsstring \<Rightarrow> int" where
  "durationWeeks_of duration = or_default (parseInt (match_digits duration)) 4"

definition generateFallbackPlan ::
  "jsstring \<Rightarrow> jsstring \<Rightarrow> jsstring \<Rightarrow> jsstring \<Rightarrow> jsstring" where
  "generateFallbackPlan subject level duration goals =
     (let durationWeeks = durationWeeks_of duration;
          weeksText = (if durationWeeks > 1 then lit ''weeks'' else lit ''week'')
      in fallback_template subject level duration goals durationWeeks)"

text \<open>
  The lines of a text, as \<^verbatim>\<open>text.split("\n")\<close> gives them: the theorems about the
  phase lines of a plan read them from the generated text with it.
\<close>

fun split_lines :: "jsstring \<Rightarrow> jsstring \<Rightarrow> jsstring list" where
  "split_lines cur [] = [cur]"
| "split_lines cur (c # cs) =
     (if c = LF then cur # split_lines [] cs else split_lines (cur @ [c]) cs)"

definition js_lines :: "jsstring \<Rightarrow> jsstring list" where
  "js_lines s = split_lines [] s"

definition count_lf :: "jsstring \<Rightarrow> nat" where
  "count_lf s = length (filter (\<lambda>c. c = LF) s)"

section \<open>The handler of \<^verbatim>\<open>POST /generate-plan\<close>\<close>

text \<open>
  \<^verbatim>\<open>generated_text.replace(prompt, '')\<close>: with a string pattern, \<^verbatim>\<open>replace\<close>
  removes the first occurrence of the pattern, wherever it is, and nothing when there is
  none.
\<close>

fun replace_empty :: "jsstring \<Rightarrow> jsstring \<Rightarrow> jsstring" where
  "replace_empty pat [] = []"
| "replace_empty pat (c # cs) =
     (if prefix pat (c # cs) then drop (length pat) (c # cs)
      else c # replace_empty pat cs)"

text \<open>
  \<^verbatim>\<open>.trim()\<close> removes the white space and line terminators of ECMAScript from both
  ends.
\<close>

definition is_space :: "code_unit \<Rightarrow> bool" where
  "is_space c \<longleftrightarrow>
     c \<in> {0x09, 0x0A, 0x0B, 0x0C, 0x0D, 0x20, 0xA0, 0x1680, 0x2028, 0x2029,
          0x202F, 0x205F, 0x3000, 0xFEFF}
     \<or> (0x2000 \<le> c \<and> c \<le> 0x200A)"

definition js_trim :: "jsstring \<Rightarrow> jsstring" where
  "js_trim s = rev (dropWhile is_space (rev (dropWhile is_space s)))"

text \<open>
  The request body: each of the four fields is a string or absent (\<open>None\<close>). In a
  condition the empty string is as falsy as an absent field.
\<close>

record plan_request =
  body_subject :: "jsstring option"
  body_level :: "jsstring option"
  body_duration :: "jsstring option"
  body_goals :: "jsstring option"

definition falsy :: "jsstring option \<Rightarrow> bool" where
  "falsy v \<longleftrightarrow> (case v of None \<Rightarrow> True | Some s \<Rightarrow> s = [])"

text \<open>
  The document written to the collection \<^verbatim>\<open>studyPlans\<close>. Its field
  \<^verbatim>\<open>createdAt\<close> is the same server-timestamp token in every write and is left out.
\<close>

record plan_record =
  rec_subject :: jsstring
  rec_level :: jsstring
  rec_duration :: jsstring
  rec_goals :: jsstring
  rec_plan :: jsstring
  rec_modelUsed :: jsstring
  rec_isAiGenerated :: bool

text \<open>
  The two services the handler awaits. A call of \<^verbatim>\<open>inference.textGeneration\<close>
  throws or returns a response, of which the handler reads only
  \<^verbatim>\<open>response?.generated_text\<close> (\<open>None\<close> when the response or the field is
  missing). A call of \<^verbatim>\<open>db.collection('studyPlans').add\<close> throws or returns a
  reference with an id. Within one request every call has its own arguments (a model is
  called once, and every write names its model), so a service is a function of the
  arguments of the call.
\<close>

datatype generation = Threw jsstring | Returned "jsstring option"

datatype added = AddThrew jsstring | Added jsstring

type_synonym inference = "jsstring \<Rightarrow> jsstring \<Rightarrow> generation"
type_synonym store = "plan_record \<Rightarrow> added"

text \<open>What the handler does to the outside, in order.\<close>

datatype effect = TextGeneration jsstring jsstring | StoreAdd plan_record

text \<open>The HTTP response: the status and the fields of the JSON body that are present.\<close>

record response =
  status :: nat
  json_error :: "jsstring option"
  json_success :: "bool option"
  json_plan :: "jsstring option"
  json_planId :: "jsstring option"
  json_modelUsed :: "jsstring option"
  json_isAiGenerated :: "bool option"
  json_message :: "jsstring option"
  json_warning :: "jsstring option"

definition empty_body :: response where
  "empty_body =
     \<lparr>status = 200, json_error = None, json_success = None, json_plan = None,
      json_planId = None, json_modelUsed = None, json_isAiGenerated = None,
      json_message = None, json_warning = None\<rparr>"

definition build_prompt :: "jsstring \<Rightarrow> jsstring \<Rightarrow> jsstring \<Rightarrow> jsstring \<Rightarrow> jsstring" where
  "build_prompt subject level duration goals =
     lit ''Create a personalized study plan:'' @ [LF] @
     [LF] @
     lit ''Subject: '' @ subject @ [LF] @
     lit ''Level: '' @ level @ [LF] @
     lit ''Duration: '' @ duration @ [LF] @
     lit ''Goals: '' @ goals @ [LF] @
     [LF] @
     lit ''Include:'' @ [LF] @
     lit ''1. Overview'' @ [LF] @
     lit ''2. Weekly breakdown'' @ [LF] @
     lit ''3. Daily study schedule'' @ [LF] @
     lit ''4. Milestones'' @ [LF] @
     lit ''5. Assessments'' @ [LF] @
     lit ''6. Resources'' @ [LF] @
     lit ''7. Learning tips''"

definition models :: "jsstring list" where
  "models =
     [lit ''mistralai/Mistral-7B-Instruct-v0.3'',
      lit ''microsoft/DialoGPT-medium'',
      lit ''google/flan-t5-large'',
      lit ''facebook/blenderbot-400M-distill'',
      lit ''bigscience/bloom-560m'']"

text \<open>
  The \<^verbatim>\<open>for (const model of models)\<close> loop. Its state is \<^verbatim>\<open>lastError\<close> and the
  effects so far; it returns the response it sent, if it sent one. The write of the
  generated plan is inside the \<^verbatim>\<open>try\<close> block of the loop, so an \<^verbatim>\<open>add\<close> that
  throws is caught like a failed generation and the loop goes on to the next model.
\<close>

definition ai_record ::
  "jsstring \<Rightarrow> jsstring \<Rightarrow> jsstring \<Rightarrow> jsstring \<Rightarrow> jsstring \<Rightarrow> jsstring \<Rightarrow> plan_record" where
  "ai_record subject level duration goals generatedText modelUsed =
     \<lparr>rec_subject = subject, rec_level = level, rec_duration = duration,
      rec_goals = goals, rec_plan = generatedText, rec_modelUsed = modelUsed,
      rec_isAiGenerated = True\<rparr>"

fun try_models ::
  "inference \<Rightarrow> store \<Rightarrow> jsstring \<Rightarrow> jsstring \<Rightarrow> jsstring \<Rightarrow> jsstring \<Rightarrow> jsstring \<Rightarrow>
   jsstring list \<Rightarrow> jsstring option \<Rightarrow> effect list \<Rightarrow>
   response option \<times> jsstring option \<times> effect list" where
  "try_models textGeneration add subject level duration goals prompt [] lastError effects =
     (None, lastError, effects)"
| "try_models textGeneration add subject level duration goals prompt (model # rest)
     lastError effects =
     (let effects1 = effects @ [TextGeneration model prompt]
      in case textGeneration model prompt of
        Threw error \<Rightarrow>
          try_models textGeneration add subject level duration goals prompt rest
            (Some error) effects1
      | Returned generated_text \<Rightarrow>
          if \<not> falsy generated_text \<and> length (the generated_text) \<ge> 100 then
            (let generatedText = js_trim (replace_empty prompt (the generated_text));
                 modelUsed = model;
                 document = ai_record subject level duration goals generatedText modelUsed;
                 effects2 = effects1 @ [StoreAdd document]
             in case add document of
               AddThrew error \<Rightarrow>
                 try_models textGeneration add subject level duration goals prompt rest
                   (Some error) effects2
             | Added planId \<Rightarrow>
                 (Some (empty_body\<lparr>json_success := Some True,
                          json_plan := Some generatedText,
                          json_planId := Some planId,
                          json_modelUsed := Some modelUsed,
                          json_isAiGenerated := Some True\<rparr>),
                  lastError, effects2))
          else
            try_models textGeneration add subject level duration goals prompt rest
              lastError effects1)"

definition fallback_record ::
  "jsstring \<Rightarrow> jsstring \<Rightarrow> jsstring \<Rightarrow> jsstring \<Rightarrow> jsstring \<Rightarrow> plan_record" where
  "fallback_record subject level duration goals fallbackPlan =
     \<lparr>rec_subject = subject, rec_level = level, rec_duration = duration,
      rec_goals = goals, rec_plan = fallbackPlan, rec_modelUsed = lit ''fallback'',
      rec_isAiGenerated = False\<rparr>"

text \<open>
  \<^verbatim>\<open>app.post('/generate-plan', ...)\<close>: the response sent and the effects of the
  request, in order.
\<close>

definition generate_plan ::
  "inference \<Rightarrow> store \<Rightarrow> plan_request \<Rightarrow> response \<times> effect list" where
  "generate_plan textGeneration add body =
     (if falsy (body_subject body) \<or> falsy (body_level body) \<or>
         falsy (body_duration body) \<or> falsy (body_goals body) then
        (empty_body\<lparr>status := 400, json_error := Some (lit ''All fields are required'')\<rparr>,
         [])
      else
        (let subject = the (body_subject body); level = the (body_level body);
             duration = the (body_duration body); goals = the (body_goals body);
             prompt = build_prompt subject level duration goals
         in case try_models textGeneration add subject level duration goals prompt
                   models None [] of
           (Some sent, lastError, effects) \<Rightarrow> (sent, effects)
         | (None, lastError, effects) \<Rightarrow>
             (let fallbackPlan = generateFallbackPlan subject level duration goals;
                  document = fallback_record subject level duration goals fallbackPlan;
                  effects1 = effects @ [StoreAdd document]
              in case add document of
                Added planId \<Rightarrow>
                  (empty_body\<lparr>json_success := Some True,
                     json_plan := Some fallbackPlan,
                     json_planId := Some planId,
                     json_modelUsed := Some (lit ''fallback''),
                     json_isAiGenerated := Some False,
                     json_message := Some (lit ''AI service unavailable, fallback used'')\<rparr>,
                   effects1)
              | AddThrew error \<Rightarrow>
                  (empty_body\<lparr>json_success := Some True,
                     json_plan := Some fallbackPlan,
                     json_modelUsed := Some (lit ''fallback''),
                     json_isAiGenerated := Some False,
                     json_warning := Some (lit ''Fallback plan not saved due to DB error'')\<rparr>,
                   effects1))))"

section \<open>Notions the properties are stated with\<close>

text \<open>
  A generation call the loop passes over: it threw, or there is no generated text, or the
  text as returned is shorter than 100 code units.
\<close>

definition rejected :: "generation \<Rightarrow> bool" where
  "rejected r =
     (case r of
        Threw error \<Rightarrow> True
      | Returned None \<Rightarrow> True
      | Returned (Some generated_text) \<Rightarrow> length generated_text < 100)"

text \<open>A request, and services, that the closed theorems below run the handler on.\<close>

definition example_request :: plan_request where
  "example_request =
     \<lparr>body_subject = Some (lit ''Algebra''), body_level = Some (lit ''Beginner''),
      body_duration = Some (lit ''6 weeks''), body_goals = Some (lit ''Pass the exam'')\<rparr>"

definition example_prompt :: jsstring where
  "example_prompt =
     build_prompt (lit ''Algebra'') (lit ''Beginner'') (lit ''6 weeks'') (lit ''Pass the exam'')"

definition long_text :: jsstring where
  "long_text = replicate 120 0x78"

definition other_text :: jsstring where
  "other_text = replicate 150 0x79"

text \<open>The first model echoes the prompt and adds three code units; the others are down.\<close>

definition echo_inference :: inference where
  "echo_inference model prompt =
     (if model = hd models then Returned (Some (prompt @ lit '' ok''))
      else Threw (lit ''unavailable''))"

text \<open>The first model answers with two code units; the others are down.\<close>

definition short_inference :: inference where
  "short_inference model prompt =
     (if model = hd models then Returned (Some (lit ''ok''))
      else Threw (lit ''unavailable''))"

text \<open>The first model answers with 120 code units; the others are down.\<close>

definition first_model_inference :: inference where
  "first_model_inference model prompt =
     (if model = hd models then Returned (Some long_text)
      else Threw (lit ''unavailable''))"

text \<open>The first two models answer, with 120 and with 150 code units; the others are down.\<close>

definition two_model_inference :: inference where
  "two_model_inference model prompt =
     (if model = hd models then Returned (Some long_text)
      else if model = hd (tl models) then Returned (Some other_text)
      else Threw (lit ''unavailable''))"

definition inference_down :: inference where
  "inference_down model prompt = Threw (lit ''unavailable'')"

definition store_ok :: store where
  "store_ok document = Added (lit ''plan-1'')"

definition store_down :: store where
  "store_down document = AddThrew (lit ''unavailable'')"

text \<open>The store fails on the write that names the first model and works afterwards.\<close>

definition store_failing_first :: store where
  "store_failing_first document =
     (if rec_modelUsed document = hd models then AddThrew (lit ''unavailable'')
      else Added (lit ''plan-2''))"

section \<open>Code units, lines and week counts\<close>

lemma unat_of_char: "unat (of_char c :: code_unit) = of_char c"
proof -
  have "(of_char c :: code_unit) = of_nat (of_char c)"
    by (simp only: of_nat_of_char)
  moreover have "(of_char c :: nat) < 2 ^ 16"
    by (rule less_trans [OF nat_of_char_less_256]) simp
  ultimately show ?thesis
    by (simp add: unat_of_nat)
qed

lemma of_char_eq_LF: "((of_char c :: code_unit) = LF) = (c = CHR 0x0A)"
proof -
  have "LF = of_char (CHR 0x0A)"
    by (simp add: LF_def)
  then have "(of_char c = LF) = (unat (of_char c :: code_unit) = unat (of_char (CHR 0x0A) :: code_unit))"
    by (simp only: word_unat_eq_iff)
  also have "\<dots> = (c = CHR 0x0A)"
    by (simp only: unat_of_char of_char_eq_iff)
  finally show ?thesis .
qed

lemma LF_lit: "(LF \<in> set (lit s)) = (CHR 0x0A \<in> set s)"
proof -
  have "(LF \<in> set (lit s)) = (\<exists>c\<in>set s. LF = of_char c)"
    by (simp add: lit_def image_iff)
  also have "\<dots> = (\<exists>c\<in>set s. of_char c = LF)"
    by (simp only: eq_commute [of LF])
  also have "\<dots> = (CHR 0x0A \<in> set s)"
    by (simp add: of_char_eq_LF)
  finally show ?thesis .
qed

lemma lit_append: "lit a @ lit b = lit (a @ b)"
  by (simp add: lit_def)

lemma lit_Nil: "lit [] = []"
  by (simp add: lit_def)

lemma split_lines_no_lf:
  "LF \<notin> set a \<Longrightarrow> split_lines cur (a @ b) = split_lines (cur @ a) b"
  by (induction a arbitrary: cur) auto

lemma split_lines_lit:
  "CHR 0x0A \<notin> set s \<Longrightarrow> split_lines cur (lit s @ b) = split_lines (cur @ lit s) b"
  by (simp add: split_lines_no_lf LF_lit)

lemma split_lines_lit_end:
  "CHR 0x0A \<notin> set s \<Longrightarrow> split_lines cur (lit s) = [cur @ lit s]"
  using split_lines_lit [of s cur "[]"] by simp

lemma split_lines_LF: "split_lines cur (LF # b) = cur # split_lines [] b"
  by simp

lemma digit_not_LF: "k < 10 \<Longrightarrow> (of_nat (48 + k) :: code_unit) \<noteq> LF"
proof
  assume k: "k < 10" and eq: "(of_nat (48 + k) :: code_unit) = LF"
  have "unat (of_nat (48 + k) :: code_unit) = (48 + k) mod 2 ^ 16"
    by (simp only: unat_of_nat len_bit0 len_num1 mult_1_right) simp
  with k have "unat (of_nat (48 + k) :: code_unit) = 48 + k"
    by simp
  moreover have "unat LF = 10"
    by (simp add: LF_def)
  ultimately show False
    using eq by simp
qed

lemma nat_digits_no_lf: "LF \<notin> set (nat_digits n)"
proof (induction n rule: nat_digits.induct)
  case (1 n)
  show ?case
  proof (cases "n < 10")
    case True
    then show ?thesis
      using digit_not_LF [of n] by (subst nat_digits.simps) (simp del: of_nat_add)
  next
    case False
    then show ?thesis
      using 1 digit_not_LF [of "n mod 10"]
      by (subst nat_digits.simps) (simp del: of_nat_add)
  qed
qed

lemma number_to_string_no_lf: "LF \<notin> set (number_to_string i)"
  by (simp add: number_to_string_def nat_digits_no_lf LF_lit)

lemma split_lines_number:
  "split_lines cur (number_to_string i @ b) = split_lines (cur @ number_to_string i) b"
  by (simp add: split_lines_no_lf number_to_string_no_lf)

lemma split_lines_dash: "split_lines cur (0x2013 # b) = split_lines (cur @ [0x2013]) b"
  by (simp add: LF_def)

lemma inj_of_char_unit: "inj (of_char :: char \<Rightarrow> code_unit)"
proof (rule injI)
  fix c d :: char
  assume "(of_char c :: code_unit) = of_char d"
  then have "unat (of_char c :: code_unit) = unat (of_char d :: code_unit)"
    by simp
  then show "c = d"
    by (simp only: unat_of_char of_char_eq_iff)
qed

lemma lit_eq_iff: "(lit a = lit b) = (a = b)"
  by (simp add: lit_def inj_map_eq_map [OF inj_of_char_unit])

lemma length_lit: "length (lit s) = length s"
  by (simp add: lit_def)

lemma split_lines_skip:
  "split_lines cur (a @ LF # b) ! (Suc (count_lf a) + k) = split_lines [] b ! k"
  by (induction a arbitrary: cur) (simp_all add: count_lf_def)

lemma count_lf_append: "count_lf (a @ b) = count_lf a + count_lf b"
  by (simp add: count_lf_def)

lemma count_lf_lit: "CHR 0x0A \<notin> set s \<Longrightarrow> count_lf (lit s) = 0"
  by (auto simp: count_lf_def filter_empty_conv LF_lit)

lemma count_lf_LF: "count_lf (LF # s) = Suc (count_lf s)"
  by (simp add: count_lf_def)

lemma count_lf_Nil: "count_lf [] = 0"
  by (simp add: count_lf_def)

lemma plan_line:
  "js_lines (generateFallbackPlan subject level duration goals) !
     (3 + count_lf subject + count_lf level + count_lf duration + count_lf goals + k) =
   split_lines [] (fallback_body (durationWeeks_of duration)) ! k"
proof -
  let ?h = "lit ''Study Plan for '' @ subject @ lit '' ('' @ level @ lit '' Level)'' @ [LF] @
     lit ''Duration: '' @ duration @ [LF] @ lit ''Goals: '' @ goals"
  have head: "fallback_head subject level duration goals = ?h @ [LF]"
    by (simp add: fallback_head_def)
  have count: "count_lf ?h =
      2 + count_lf subject + count_lf level + count_lf duration + count_lf goals"
    by (simp add: count_lf_append count_lf_lit count_lf_LF count_lf_Nil)
  have idx: "3 + count_lf subject + count_lf level + count_lf duration + count_lf goals + k =
      Suc (count_lf ?h) + k"
    unfolding count by simp
  have eq: "js_lines (generateFallbackPlan subject level duration goals) =
      split_lines [] (?h @ LF # fallback_body (durationWeeks_of duration))"
    by (simp add: js_lines_def generateFallbackPlan_def fallback_template_def head)
  show ?thesis
    unfolding idx eq by (rule split_lines_skip)
qed

lemmas line_simps = split_lines_lit split_lines_lit_end split_lines_LF split_lines_number
  split_lines_dash lit_append lit_Nil

lemma body_line_3:
  "split_lines [] (fallback_body w) ! 3 =
     lit ''Phase 1: Foundation (Week 1'' @ (if w > 2 then lit ''-2'' else lit '''') @ lit '')''"
  unfolding fallback_body_def
  by (simp add: line_simps del: split_lines.simps)

lemma body_line_9:
  "split_lines [] (fallback_body w) ! 9 =
     lit ''Phase 2: Core Learning (Week '' @
     (if w > 2 then lit ''3-'' @ number_to_string (ceil_weeks w) else lit ''2'') @ lit '')''"
  unfolding fallback_body_def
  by (simp add: line_simps del: split_lines.simps)

lemma body_line_14:
  "split_lines [] (fallback_body w) ! 14 =
     lit ''Phase 3: Advanced Application (Week '' @ number_to_string (ceil_weeks w + 1) @
     lit ''-'' @ number_to_string (w - 1) @ lit '')''"
  unfolding fallback_body_def
  by (simp add: line_simps del: split_lines.simps)

lemma body_line_19:
  "split_lines [] (fallback_body w) ! 19 = lit ''Phase 4: Review & Mastery (Final Week)''"
  unfolding fallback_body_def
  by (simp add: line_simps del: split_lines.simps)

lemma ceil_weeks_eq: "ceil_weeks w = (7 * w + 9) div 10"
  unfolding ceil_weeks_def by linarith

text \<open>
  The range on which the exact ceiling is the one of the source. The product of a week
  count \<open>w < 2^40\<close> and \<open>double_07\<close> is below \<open>2^40\<close>, where two neighbouring
  binary64 numbers are at most \<open>2^-13\<close> apart and every integer is one of them: the
  rounded product \<open>y\<close> is within \<open>2^-14\<close> of the exact one, and not above an integer
  that the exact one is not above. Every such \<open>y\<close> has the ceiling of the model.
\<close>

lemma double_07_gap: "0.7 - double_07 = 1 / (5 * 2 ^ 52)"
  by (simp add: double_07_def)

lemma ceil_weeks_double:
  assumes "0 \<le> w" and "w < 2 ^ 40"
    and "\<bar>y - real_of_int w * double_07\<bar> \<le> 1 / 16384"
    and "\<And>k :: int. real_of_int w * double_07 \<le> real_of_int k \<Longrightarrow> y \<le> real_of_int k"
  shows "\<lceil>y\<rceil> = ceil_weeks w"
proof -
  define c where "c = ceil_weeks w"
  have c: "c = (7 * w + 9) div 10"
    by (simp add: c_def ceil_weeks_eq)
  have wr: "real_of_int w < 2 ^ 40" "0 \<le> real_of_int w"
    using assms(1,2) by (simp_all flip: of_int_less_iff add: of_int_less_numeral_power_cancel_iff)
  have prod: "real_of_int w * double_07 = real_of_int w * 0.7 - real_of_int w / (5 * 2 ^ 52)"
    using double_07_gap by (simp add: algebra_simps)
  have up: "real_of_int w * 0.7 \<le> real_of_int c"
    unfolding c_def ceil_weeks_def by (rule le_of_int_ceiling)
  have "10 * (c - 1) + 1 \<le> 7 * w"
    unfolding c by presburger
  then have "real_of_int (10 * (c - 1) + 1) \<le> real_of_int (7 * w)"
    by (simp only: of_int_le_iff)
  then have low: "real_of_int c - 1 + 0.1 \<le> real_of_int w * 0.7"
    by simp
  have "real_of_int w * double_07 \<le> real_of_int c"
    using up wr unfolding prod by (simp add: field_simps)
  then have "y \<le> real_of_int c"
    by (rule assms(4))
  moreover have "real_of_int c - 1 < y"
  proof -
    have gap: "real_of_int w / (5 * 2 ^ 52) < 1 / 20480"
      using wr by (simp add: field_simps)
    have "real_of_int w * double_07 - 1 / 16384 \<le> y"
      using assms(3) by linarith
    then have "real_of_int w * 0.7 - real_of_int w / (5 * 2 ^ 52) - 1 / 16384 \<le> y"
      by (simp only: prod)
    with low gap show ?thesis
      by linarith
  qed
  ultimately show ?thesis
    unfolding c_def [symmetric] by (simp add: ceiling_unique)
qed

lemma is_digit_uint: "is_digit c \<Longrightarrow> 48 \<le> uint c"
  by (simp add: is_digit_def word_le_def)

lemma digits_value_nonneg:
  "\<forall>c\<in>set ds. is_digit c \<Longrightarrow> 0 \<le> a \<Longrightarrow> 0 \<le> foldl (\<lambda>a c. 10 * a + (uint c - 48)) a ds"
proof (induction ds arbitrary: a)
  case Nil
  then show ?case by simp
next
  case (Cons c ds)
  from Cons.prems have "0 \<le> 10 * a + (uint c - 48)"
    using is_digit_uint [of c] by simp
  with Cons show ?case by simp
qed

lemma durationWeeks_of_pos: "1 \<le> durationWeeks_of duration"
proof (cases "match_digits duration")
  case None
  then show ?thesis
    by (simp add: durationWeeks_of_def parseInt_def or_default_def)
next
  case (Some ds)
  then have "\<forall>c\<in>set ds. is_digit c"
    by (auto simp: match_digits_def Let_def split: if_splits dest: set_takeWhileD)
  then have "0 \<le> digits_value ds"
    unfolding digits_value_def by (rule digits_value_nonneg) simp
  with Some show ?thesis
    by (simp add: durationWeeks_of_def parseInt_def or_default_def)
qed

lemma no_digit_no_match: "\<forall>c\<in>set duration. \<not> is_digit c \<Longrightarrow> match_digits duration = None"
  by (simp add: match_digits_def dropWhile_eq_Nil_conv)

lemma nat_digits_small: "n < 10 \<Longrightarrow> nat_digits n = [of_nat (48 + n)]"
  by (subst nat_digits.simps) simp

section \<open>The fallback generator: phase lines\<close>

text \<open>
  A line of the plan is addressed by its number in the template, counted from 0, plus the
  line breaks that the four request fields bring in themselves: the title line is line 0,
  the line of phase 1 is line 6, of phase 2 line 12, of phase 3 line 17 and of phase 4
  line 22.
\<close>

text \<open>
  C5: for every parsed week count, the plan's phase 1 line is
  \<^verbatim>\<open>Phase 1: Foundation (Week 1)\<close>, with no range, when the count is at most 2, and
  \<^verbatim>\<open>Phase 1: Foundation (Week 1-2)\<close> when it is greater than 2.
\<close>

theorem phase1_week_range:
  "(durationWeeks_of duration \<le> 2 \<longrightarrow>
      js_lines (generateFallbackPlan subject level duration goals) !
        (6 + count_lf subject + count_lf level + count_lf duration + count_lf goals) =
      lit ''Phase 1: Foundation (Week 1)'') \<and>
   (durationWeeks_of duration > 2 \<longrightarrow>
      js_lines (generateFallbackPlan subject level duration goals) !
        (6 + count_lf subject + count_lf level + count_lf duration + count_lf goals) =
      lit ''Phase 1: Foundation (Week 1-2)'')"
proof -
  have "6 + count_lf subject + count_lf level + count_lf duration + count_lf goals =
      3 + count_lf subject + count_lf level + count_lf duration + count_lf goals + 3"
    by simp
  then show ?thesis
    by (simp only: plan_line body_line_3) (simp add: lit_append lit_Nil)
qed

theorem phase1_week_range_witness:
  "durationWeeks_of (lit ''2 weeks'') \<le> 2 \<and>
   js_lines (generateFallbackPlan (lit ''Algebra'') (lit ''Beginner'') (lit ''2 weeks'')
     (lit ''Pass the exam'')) ! 6 = lit ''Phase 1: Foundation (Week 1)'' \<and>
   durationWeeks_of (lit ''6 weeks'') > 2 \<and>
   js_lines (generateFallbackPlan (lit ''Algebra'') (lit ''Beginner'') (lit ''6 weeks'')
     (lit ''Pass the exam'')) ! 6 = lit ''Phase 1: Foundation (Week 1-2)''"
proof -
  have two: "durationWeeks_of (lit ''2 weeks'') = 2"
    by (simp add: durationWeeks_of_def match_digits_def parseInt_def or_default_def
        digits_value_def lit_def is_digit_def)
  have six: "durationWeeks_of (lit ''6 weeks'') = 6"
    by (simp add: durationWeeks_of_def match_digits_def parseInt_def or_default_def
        digits_value_def lit_def is_digit_def)
  show ?thesis
    using phase1_week_range [of "lit ''2 weeks''" "lit ''Algebra''" "lit ''Beginner''"
        "lit ''Pass the exam''"]
      phase1_week_range [of "lit ''6 weeks''" "lit ''Algebra''" "lit ''Beginner''"
        "lit ''Pass the exam''"]
    by (simp add: two six count_lf_lit)
qed

text \<open>
  C6, in the words of the specification, lets the range of the phase 2 line end at
  \<open>ceil(w * 0.7)\<close> for every week count \<open>w\<close>. A plan of one week is the
  exception: its week count is 1 and \<open>ceil(1 * 0.7) = 1\<close>, but the guard
  \<^verbatim>\<open>durationWeeks > 2\<close> of the template makes the line
  \<^verbatim>\<open>Phase 2: Core Learning (Week 2)\<close>.
\<close>

theorem phase2_end_one_week:
  "durationWeeks_of (lit ''1 week'') = 1 \<and> ceil_weeks 1 = 1 \<and>
   js_lines (generateFallbackPlan (lit ''Algebra'') (lit ''Beginner'') (lit ''1 week'')
     (lit ''Pass the exam'')) ! 12 = lit ''Phase 2: Core Learning (Week 2)'' \<and>
   \<not> suffix (number_to_string (ceil_weeks 1) @ lit '')'')
       (js_lines (generateFallbackPlan (lit ''Algebra'') (lit ''Beginner'') (lit ''1 week'')
          (lit ''Pass the exam'')) ! 12)"
proof -
  have one: "durationWeeks_of (lit ''1 week'') = 1"
    by (simp add: durationWeeks_of_def match_digits_def parseInt_def or_default_def
        digits_value_def lit_def is_digit_def)
  have c: "ceil_weeks 1 = 1"
    by (simp add: ceil_weeks_eq)
  have "js_lines (generateFallbackPlan (lit ''Algebra'') (lit ''Beginner'') (lit ''1 week'')
     (lit ''Pass the exam'')) ! (3 + count_lf (lit ''Algebra'') + count_lf (lit ''Beginner'') +
       count_lf (lit ''1 week'') + count_lf (lit ''Pass the exam'') + 9) =
     lit ''Phase 2: Core Learning (Week 2)''"
    by (simp only: plan_line body_line_9 one) (simp add: lit_append)
  then have line: "js_lines (generateFallbackPlan (lit ''Algebra'') (lit ''Beginner'')
     (lit ''1 week'') (lit ''Pass the exam'')) ! 12 = lit ''Phase 2: Core Learning (Week 2)''"
    by (simp add: count_lf_lit)
  have "\<not> suffix (number_to_string 1 @ lit '')'') (lit ''Phase 2: Core Learning (Week 2)'')"
    by (simp add: number_to_string_def nat_digits_small lit_def suffix_to_prefix)
  with one c line show ?thesis
    by simp
qed

text \<open>
  C6, as the code has it, for every parsed week count \<open>w\<close> below \<open>2^40\<close> (the range
  on which the numbers of this theory are the doubles of the source): for \<open>w\<close> greater
  than 2 the phase 2 line is \<^verbatim>\<open>Phase 2: Core Learning (Week 3-c)\<close> with
  \<open>c = ceil(w * 0.7)\<close>, and for \<open>w \<le> 2\<close> it is
  \<^verbatim>\<open>Phase 2: Core Learning (Week 2)\<close>; so the range of the line ends at
  \<open>ceil(w * 0.7)\<close> for every \<open>w\<close> other than 1. The phase 3 line spans from
  \<open>ceil(w * 0.7) + 1\<close> through \<open>w - 1\<close>, and the phase 4 line names the final week.
\<close>

theorem phase_ranges:
  "durationWeeks_of duration < 2 ^ 40 \<Longrightarrow>
   (let w = durationWeeks_of duration;
        n = count_lf subject + count_lf level + count_lf duration + count_lf goals;
        plan = js_lines (generateFallbackPlan subject level duration goals)
    in (w > 2 \<longrightarrow> plan ! (12 + n) =
          lit ''Phase 2: Core Learning (Week 3-'' @ number_to_string (ceil_weeks w) @ lit '')'') \<and>
       (w \<le> 2 \<longrightarrow> plan ! (12 + n) = lit ''Phase 2: Core Learning (Week 2)'') \<and>
       (w \<noteq> 1 \<longrightarrow> suffix (number_to_string (ceil_weeks w) @ lit '')'') (plan ! (12 + n))) \<and>
       plan ! (17 + n) =
         lit ''Phase 3: Advanced Application (Week '' @ number_to_string (ceil_weeks w + 1) @
         lit ''-'' @ number_to_string (w - 1) @ lit '')'' \<and>
       plan ! (22 + n) = lit ''Phase 4: Review & Mastery (Final Week)'')"
proof -
  define w where "w = durationWeeks_of duration"
  define n where "n = count_lf subject + count_lf level + count_lf duration + count_lf goals"
  define plan where "plan = js_lines (generateFallbackPlan subject level duration goals)"
  have line: "plan ! (3 + n + k) = split_lines [] (fallback_body w) ! k" for k
    unfolding plan_def n_def w_def add.assoc [symmetric] by (rule plan_line)
  have l12: "plan ! (12 + n) = lit ''Phase 2: Core Learning (Week '' @
     (if w > 2 then lit ''3-'' @ number_to_string (ceil_weeks w) else lit ''2'') @ lit '')''"
    using line [of 9] by (simp add: body_line_9 add.commute)
  have l17: "plan ! (17 + n) = lit ''Phase 3: Advanced Application (Week '' @
     number_to_string (ceil_weeks w + 1) @ lit ''-'' @ number_to_string (w - 1) @ lit '')''"
    using line [of 14] by (simp add: body_line_14 add.commute)
  have l22: "plan ! (22 + n) = lit ''Phase 4: Review & Mastery (Final Week)''"
    using line [of 19] by (simp add: body_line_19 add.commute)
  have long: "plan ! (12 + n) =
      lit ''Phase 2: Core Learning (Week 3-'' @ number_to_string (ceil_weeks w) @ lit '')''"
    if "w > 2"
    using that l12 by (simp add: lit_def)
  have short: "plan ! (12 + n) = lit ''Phase 2: Core Learning (Week 2)''" if "w \<le> 2"
    using that l12 by (simp add: lit_append)
  have ends: "suffix (number_to_string (ceil_weeks w) @ lit '')'') (plan ! (12 + n))"
    if "w \<noteq> 1"
  proof (cases "w > 2")
    case True
    then show ?thesis
      by (simp add: long suffix_def)
  next
    case False
    with that durationWeeks_of_pos [of duration] have "w = 2"
      by (simp add: w_def)
    then show ?thesis
      using short by (simp add: ceil_weeks_eq number_to_string_def nat_digits_small lit_def
          suffix_to_prefix)
  qed
  show ?thesis
    using long short ends l17 l22
    unfolding Let_def w_def [symmetric] n_def [symmetric] plan_def [symmetric] by blast
qed

theorem phase_ranges_witness:
  "durationWeeks_of (lit ''6 weeks'') = 6 \<and> (6 :: int) < 2 ^ 40 \<and> ceil_weeks 6 = 5 \<and>
   js_lines (generateFallbackPlan (lit ''Algebra'') (lit ''Beginner'') (lit ''6 weeks'')
     (lit ''Pass the exam'')) ! 12 = lit ''Phase 2: Core Learning (Week 3-5)'' \<and>
   js_lines (generateFallbackPlan (lit ''Algebra'') (lit ''Beginner'') (lit ''6 weeks'')
     (lit ''Pass the exam'')) ! 17 = lit ''Phase 3: Advanced Application (Week 6-5)'' \<and>
   js_lines (generateFallbackPlan (lit ''Algebra'') (lit ''Beginner'') (lit ''6 weeks'')
     (lit ''Pass the exam'')) ! 22 = lit ''Phase 4: Review & Mastery (Final Week)''"
proof -
  have six: "durationWeeks_of (lit ''6 weeks'') = 6"
    by (simp add: durationWeeks_of_def match_digits_def parseInt_def or_default_def
        digits_value_def lit_def is_digit_def)
  then have bound: "durationWeeks_of (lit ''6 weeks'') < 2 ^ 40"
    by simp
  have c: "ceil_weeks 6 = 5"
    by (simp add: ceil_weeks_eq)
  have d: "number_to_string 5 = lit ''5''" "number_to_string 6 = lit ''6''"
    by (simp_all add: number_to_string_def nat_digits_small lit_def)
  show ?thesis
    using phase_ranges [OF bound, of "lit ''Algebra''" "lit ''Beginner''"
        "lit ''Pass the exam''"]
    by (simp add: Let_def six c d count_lf_lit lit_append)
qed

section \<open>The fallback generator: the week count\<close>

text \<open>
  C7: for every duration string without a decimal digit, the week count is 4 and the
  generator produces the plan of the template for a week count of 4.
\<close>

theorem no_digits_four_weeks:
  "\<forall>c\<in>set duration. \<not> is_digit c \<Longrightarrow>
   durationWeeks_of duration = 4 \<and>
   generateFallbackPlan subject level duration goals =
     fallback_template subject level duration goals 4"
  by (simp add: generateFallbackPlan_def durationWeeks_of_def no_digit_no_match parseInt_def
      or_default_def)

theorem no_digits_four_weeks_witness:
  "filter is_digit (lit ''one month'') = [] \<and>
   durationWeeks_of (lit ''one month'') = 4 \<and>
   generateFallbackPlan (lit ''Algebra'') (lit ''Beginner'') (lit ''one month'')
     (lit ''Pass the exam'') =
   fallback_template (lit ''Algebra'') (lit ''Beginner'') (lit ''one month'')
     (lit ''Pass the exam'') 4"
proof -
  have h: "\<forall>c\<in>set (lit ''one month''). \<not> is_digit c"
    by (simp add: lit_def is_digit_def)
  then have "filter is_digit (lit ''one month'') = []"
    by (simp only: filter_empty_conv)
  then show ?thesis
    using no_digits_four_weeks [OF h, of "lit ''Algebra''" "lit ''Beginner''"
        "lit ''Pass the exam''"]
    by simp
qed

text \<open>
  C10: for every duration string whose first run of digits reads as 0, such as
  \<^verbatim>\<open>0 weeks\<close>, the week count is 4 and the generator produces the plan of the
  template for a week count of 4, as it does when there is no digit at all.
\<close>

theorem zero_weeks_four_weeks:
  "match_digits duration = Some ds \<Longrightarrow> digits_value ds = 0 \<Longrightarrow>
   durationWeeks_of duration = 4 \<and>
   generateFallbackPlan subject level duration goals =
     fallback_template subject level duration goals 4"
  by (simp add: generateFallbackPlan_def durationWeeks_of_def parseInt_def or_default_def)

theorem zero_weeks_four_weeks_witness:
  "match_digits (lit ''0 weeks'') = Some (lit ''0'') \<and> digits_value (lit ''0'') = 0 \<and>
   durationWeeks_of (lit ''0 weeks'') = 4 \<and>
   generateFallbackPlan (lit ''Algebra'') (lit ''Beginner'') (lit ''0 weeks'')
     (lit ''Pass the exam'') =
   fallback_template (lit ''Algebra'') (lit ''Beginner'') (lit ''0 weeks'')
     (lit ''Pass the exam'') 4"
proof -
  have m: "match_digits (lit ''0 weeks'') = Some (lit ''0'')"
    by (simp add: match_digits_def lit_def is_digit_def)
  have v: "digits_value (lit ''0'') = 0"
    by (simp add: digits_value_def lit_def)
  show ?thesis
    using m v zero_weeks_four_weeks [OF m v, of "lit ''Algebra''" "lit ''Beginner''"
        "lit ''Pass the exam''"]
    by simp
qed

text \<open>
  C9 calls the fallback generator a deterministic pure function. The body of
  \<^verbatim>\<open>generateFallbackPlan\<close> reads its four parameters and nothing else (no clock,
  no random number, no service, no variable of the module), and that reading of the
  source is what makes it a function of four strings in this theory. That two runs on
  equal inputs give equal texts is then true of every function of this type, and no
  theorem about this one can say more: the property lies in the translation, not in a
  statement over it. What the handler adds to it, that the plan it returns on a fallback
  does not depend on what the models and the store did, is lemma
  \<open>fallback_plan_independent_of_services\<close> below.
\<close>

section \<open>The handler: the loop over the candidate models\<close>

lemma fallback_not_model: "lit ''fallback'' \<notin> set models"
  by (simp add: models_def lit_eq_iff)

lemma models_split: "models = hd models # tl models"
  by (simp add: models_def)

lemma length_build_prompt:
  "length (build_prompt subject level duration goals) =
     196 + length subject + length level + length duration + length goals"
  by (simp add: build_prompt_def length_lit)

lemma build_prompt_Cons:
  "build_prompt subject level duration goals =
     hd (lit ''C'') # tl (build_prompt subject level duration goals)"
  by (simp add: build_prompt_def lit_def)

lemma replace_empty_prefix: "pat \<noteq> [] \<Longrightarrow> replace_empty pat (pat @ rest) = rest"
  by (cases pat) simp_all

lemma replace_empty_absent: "pat \<noteq> [] \<Longrightarrow> hd pat \<notin> set s \<Longrightarrow> replace_empty pat s = s"
  by (induction s) (auto simp: prefix_def neq_Nil_conv)

lemma js_trim_same:
  "s \<noteq> [] \<Longrightarrow> \<not> is_space (hd s) \<Longrightarrow> \<not> is_space (last s) \<Longrightarrow> js_trim s = s"
proof -
  assume s: "s \<noteq> []" and h: "\<not> is_space (hd s)" and l: "\<not> is_space (last s)"
  from s h have front: "dropWhile is_space s = s"
    by (cases s) simp_all
  from s l have "dropWhile is_space (rev s) = rev s"
    by (cases "rev s") (simp_all add: last_rev [symmetric] del: last_rev)
  with front show ?thesis
    by (simp add: js_trim_def)
qed

lemma rejected_iff:
  "rejected r = (\<forall>generated_text. r = Returned generated_text \<longrightarrow>
     \<not> (\<not> falsy generated_text \<and> 100 \<le> length (the generated_text)))"
  by (auto simp: rejected_def falsy_def split: generation.splits option.splits)

lemma try_models_skip:
  "rejected (tg m p) \<Longrightarrow>
   try_models tg add s l d g p (m # ms) le eff =
   try_models tg add s l d g p ms
     (case tg m p of Threw e \<Rightarrow> Some e | Returned x \<Rightarrow> le) (eff @ [TextGeneration m p])"
  by (cases "tg m p") (auto simp: rejected_iff Let_def)

lemma try_models_rejected:
  "\<forall>m\<in>set ms. rejected (tg m p) \<Longrightarrow>
   \<exists>le'. try_models tg add s l d g p ms le eff =
     (None, le', eff @ map (\<lambda>m. TextGeneration m p) ms)"
proof (induction ms arbitrary: le eff)
  case Nil
  then show ?case by simp
next
  case (Cons m ms)
  from Cons.prems have "rejected (tg m p)" and rest: "\<forall>m\<in>set ms. rejected (tg m p)"
    by simp_all
  from Cons.IH [OF rest] obtain le' where
    "try_models tg add s l d g p ms
       (case tg m p of Threw e \<Rightarrow> Some e | Returned x \<Rightarrow> le) (eff @ [TextGeneration m p]) =
     (None, le', (eff @ [TextGeneration m p]) @ map (\<lambda>m. TextGeneration m p) ms)"
    by blast
  with \<open>rejected (tg m p)\<close> show ?case
    by (simp add: try_models_skip del: try_models.simps)
qed

lemma try_models_store_failure:
  assumes "tg m p = Returned (Some t)" and "100 \<le> length t"
    and "add (ai_record s l d g (js_trim (replace_empty p t)) m) = AddThrew e"
  shows "try_models tg add s l d g p (m # rest) le eff =
     try_models tg add s l d g p rest (Some e)
       (eff @ [TextGeneration m p,
               StoreAdd (ai_record s l d g (js_trim (replace_empty p t)) m)])"
proof -
  have "t \<noteq> []"
    using assms(2) by auto
  then show ?thesis
    using assms by (simp add: Let_def falsy_def)
qed

lemma try_models_accept:
  assumes "\<forall>m\<in>set pre. rejected (tg m p)"
    and "tg m p = Returned (Some t)" and "100 \<le> length t"
    and "add (ai_record s l d g (js_trim (replace_empty p t)) m) = Added pid"
  shows "\<exists>le'. try_models tg add s l d g p (pre @ m # post) le eff =
     (Some (empty_body\<lparr>json_success := Some True,
        json_plan := Some (js_trim (replace_empty p t)), json_planId := Some pid,
        json_modelUsed := Some m, json_isAiGenerated := Some True\<rparr>),
      le',
      eff @ map (\<lambda>m. TextGeneration m p) pre @
      [TextGeneration m p, StoreAdd (ai_record s l d g (js_trim (replace_empty p t)) m)])"
  using assms(1)
proof (induction pre arbitrary: le eff)
  case Nil
  have "t \<noteq> []"
    using assms(3) by auto
  then show ?case
    using assms(2-4) by (simp add: Let_def falsy_def)
next
  case (Cons m' pre)
  from Cons.prems have first: "rejected (tg m' p)" and rest: "\<forall>m\<in>set pre. rejected (tg m p)"
    by simp_all
  from Cons.IH [OF rest] obtain le' where
    "try_models tg add s l d g p (pre @ m # post)
       (case tg m' p of Threw e \<Rightarrow> Some e | Returned x \<Rightarrow> le) (eff @ [TextGeneration m' p]) =
     (Some (empty_body\<lparr>json_success := Some True,
        json_plan := Some (js_trim (replace_empty p t)), json_planId := Some pid,
        json_modelUsed := Some m, json_isAiGenerated := Some True\<rparr>),
      le',
      (eff @ [TextGeneration m' p]) @ map (\<lambda>m. TextGeneration m p) pre @
      [TextGeneration m p, StoreAdd (ai_record s l d g (js_trim (replace_empty p t)) m)])"
    by blast
  with first show ?case
    by (simp add: try_models_skip del: try_models.simps)
qed

lemma try_models_sent:
  "fst (try_models tg add s l d g p ms le eff) = Some r \<Longrightarrow>
   \<exists>m\<in>set ms. \<not> rejected (tg m p) \<and> json_modelUsed r = Some m"
proof (induction ms arbitrary: le eff)
  case Nil
  then show ?case by simp
next
  case (Cons m ms)
  show ?case
  proof (cases "rejected (tg m p)")
    case True
    with Cons.prems have "fst (try_models tg add s l d g p ms
        (case tg m p of Threw e \<Rightarrow> Some e | Returned x \<Rightarrow> le)
        (eff @ [TextGeneration m p])) = Some r"
      by (cases "tg m p") (auto simp: rejected_iff Let_def)
    from Cons.IH [OF this] show ?thesis by auto
  next
    case False
    then obtain x where x: "tg m p = Returned x" "\<not> falsy x" "100 \<le> length (the x)"
      by (auto simp: rejected_iff)
    show ?thesis
    proof (cases "add (ai_record s l d g (js_trim (replace_empty p (the x))) m)")
      case (AddThrew e)
      with x Cons.prems have "fst (try_models tg add s l d g p ms (Some e)
          (eff @ [TextGeneration m p,
             StoreAdd (ai_record s l d g (js_trim (replace_empty p (the x))) m)])) = Some r"
        by (simp add: Let_def)
      from Cons.IH [OF this] show ?thesis by auto
    next
      case (Added pid)
      with x Cons.prems False show ?thesis
        by (auto simp: Let_def)
    qed
  qed
qed

section \<open>The handler: responses\<close>

lemma generate_plan_loop:
  assumes "subject \<noteq> []" "level \<noteq> []" "duration \<noteq> []" "goals \<noteq> []"
  shows "generate_plan tg add
      \<lparr>body_subject = Some subject, body_level = Some level,
       body_duration = Some duration, body_goals = Some goals\<rparr> =
    (case try_models tg add subject level duration goals
            (build_prompt subject level duration goals) models None [] of
       (Some sent, lastError, effects) \<Rightarrow> (sent, effects)
     | (None, lastError, effects) \<Rightarrow>
         (case add (fallback_record subject level duration goals
                 (generateFallbackPlan subject level duration goals)) of
            Added planId \<Rightarrow>
              (empty_body\<lparr>json_success := Some True,
                 json_plan := Some (generateFallbackPlan subject level duration goals),
                 json_planId := Some planId,
                 json_modelUsed := Some (lit ''fallback''),
                 json_isAiGenerated := Some False,
                 json_message := Some (lit ''AI service unavailable, fallback used'')\<rparr>,
               effects @ [StoreAdd (fallback_record subject level duration goals
                 (generateFallbackPlan subject level duration goals))])
          | AddThrew error \<Rightarrow>
              (empty_body\<lparr>json_success := Some True,
                 json_plan := Some (generateFallbackPlan subject level duration goals),
                 json_modelUsed := Some (lit ''fallback''),
                 json_isAiGenerated := Some False,
                 json_warning := Some (lit ''Fallback plan not saved due to DB error'')\<rparr>,
               effects @ [StoreAdd (fallback_record subject level duration goals
                 (generateFallbackPlan subject level duration goals))])))"
  using assms
  by (simp add: generate_plan_def falsy_def Let_def
      split: prod.splits option.splits added.splits)

lemma generate_plan_accept:
  assumes "subject \<noteq> []" "level \<noteq> []" "duration \<noteq> []" "goals \<noteq> []"
    and "models = pre @ m # post"
    and "\<forall>m'\<in>set pre. rejected (tg m' (build_prompt subject level duration goals))"
    and "tg m (build_prompt subject level duration goals) = Returned (Some t)"
    and "100 \<le> length t"
    and "add (ai_record subject level duration goals
           (js_trim (replace_empty (build_prompt subject level duration goals) t)) m) =
         Added pid"
  shows "generate_plan tg add
      \<lparr>body_subject = Some subject, body_level = Some level,
       body_duration = Some duration, body_goals = Some goals\<rparr> =
    (empty_body\<lparr>json_success := Some True,
       json_plan := Some (js_trim (replace_empty (build_prompt subject level duration goals) t)),
       json_planId := Some pid, json_modelUsed := Some m,
       json_isAiGenerated := Some True\<rparr>,
     map (\<lambda>m. TextGeneration m (build_prompt subject level duration goals)) pre @
     [TextGeneration m (build_prompt subject level duration goals),
      StoreAdd (ai_record subject level duration goals
        (js_trim (replace_empty (build_prompt subject level duration goals) t)) m)])"
proof -
  from try_models_accept [where tg = tg and p = "build_prompt subject level duration goals"
      and add = add and s = subject and l = level and d = duration and g = goals
      and post = post and le = None and eff = "[]", OF assms(6-9)]
  show ?thesis
    unfolding generate_plan_loop [OF assms(1-4)] assms(5) by auto
qed

lemma generate_plan_exhausted:
  assumes "subject \<noteq> []" "level \<noteq> []" "duration \<noteq> []" "goals \<noteq> []"
    and "\<forall>m\<in>set models. rejected (tg m (build_prompt subject level duration goals))"
  shows "generate_plan tg add
      \<lparr>body_subject = Some subject, body_level = Some level,
       body_duration = Some duration, body_goals = Some goals\<rparr> =
    (case add (fallback_record subject level duration goals
            (generateFallbackPlan subject level duration goals)) of
       Added planId \<Rightarrow>
         (empty_body\<lparr>json_success := Some True,
            json_plan := Some (generateFallbackPlan subject level duration goals),
            json_planId := Some planId,
            json_modelUsed := Some (lit ''fallback''),
            json_isAiGenerated := Some False,
            json_message := Some (lit ''AI service unavailable, fallback used'')\<rparr>,
          map (\<lambda>m. TextGeneration m (build_prompt subject level duration goals)) models @
          [StoreAdd (fallback_record subject level duration goals
            (generateFallbackPlan subject level duration goals))])
     | AddThrew error \<Rightarrow>
         (empty_body\<lparr>json_success := Some True,
            json_plan := Some (generateFallbackPlan subject level duration goals),
            json_modelUsed := Some (lit ''fallback''),
            json_isAiGenerated := Some False,
            json_warning := Some (lit ''Fallback plan not saved due to DB error'')\<rparr>,
          map (\<lambda>m. TextGeneration m (build_prompt subject level duration goals)) models @
          [StoreAdd (fallback_record subject level duration goals
            (generateFallbackPlan subject level duration goals))]))"
proof -
  from try_models_rejected [where tg = tg and p = "build_prompt subject level duration goals"
      and add = add and s = subject and l = level and d = duration and g = goals
      and le = None and eff = "[]", OF assms(5)]
  show ?thesis
    unfolding generate_plan_loop [OF assms(1-4)] by auto
qed

section \<open>The handler on the example request\<close>

lemma example_fields:
  "lit ''Algebra'' \<noteq> []" "lit ''Beginner'' \<noteq> []" "lit ''6 weeks'' \<noteq> []"
  "lit ''Pass the exam'' \<noteq> []"
  by (simp_all add: lit_def)

lemma example_prompt_Cons: "example_prompt \<noteq> []" "hd example_prompt = 0x43"
  by (simp_all add: example_prompt_def build_prompt_def lit_def)

lemma length_example_prompt: "length example_prompt = 231"
  by (simp add: example_prompt_def length_build_prompt length_lit)

lemma later_models: "m \<in> set (tl models) \<Longrightarrow> m \<noteq> hd models"
  by (auto simp: models_def lit_eq_iff)

lemma second_model: "tl models = hd (tl models) # tl (tl models)" "hd (tl models) \<noteq> hd models"
  by (simp_all add: models_def lit_eq_iff)

lemma strip_echo: "js_trim (replace_empty example_prompt (example_prompt @ lit '' ok'')) = lit ''ok''"
  by (simp add: replace_empty_prefix example_prompt_Cons) (simp add: js_trim_def lit_def is_space_def)

lemma strip_long_text: "js_trim (replace_empty example_prompt long_text) = long_text"
proof -
  have "replace_empty example_prompt long_text = long_text"
    by (rule replace_empty_absent) (simp_all add: example_prompt_Cons long_text_def)
  moreover have "js_trim long_text = long_text"
    by (rule js_trim_same) (simp_all add: long_text_def is_space_def)
  ultimately show ?thesis by simp
qed

lemma strip_other_text: "js_trim (replace_empty example_prompt other_text) = other_text"
proof -
  have "replace_empty example_prompt other_text = other_text"
    by (rule replace_empty_absent) (simp_all add: example_prompt_Cons other_text_def)
  moreover have "js_trim other_text = other_text"
    by (rule js_trim_same) (simp_all add: other_text_def is_space_def)
  ultimately show ?thesis by simp
qed

section \<open>Validation\<close>

text \<open>
  C8: for every request in which one of the four fields is absent, the response has
  status 400 and the handler has no effect at all: it writes nothing to the document
  store (and calls no model).
\<close>

theorem missing_field_rejected:
  "body_subject body = None \<or> body_level body = None \<or> body_duration body = None \<or>
   body_goals body = None \<Longrightarrow>
   status (fst (generate_plan textGeneration add body)) = 400 \<and>
   snd (generate_plan textGeneration add body) = [] \<and>
   (\<forall>document. StoreAdd document \<notin> set (snd (generate_plan textGeneration add body)))"
  by (auto simp: generate_plan_def falsy_def empty_body_def)

theorem missing_field_rejected_witness:
  "body_goals (example_request\<lparr>body_goals := None\<rparr>) = None \<and>
   status (fst (generate_plan echo_inference store_ok (example_request\<lparr>body_goals := None\<rparr>))) =
     400 \<and>
   snd (generate_plan echo_inference store_ok (example_request\<lparr>body_goals := None\<rparr>)) = []"
  using missing_field_rejected [of "example_request\<lparr>body_goals := None\<rparr>" echo_inference
      store_ok]
  by simp

section \<open>Exhaustion of the candidate models\<close>

text \<open>
  C4: for every request that carries the four fields (only then is a model called), if
  every candidate model call fails or returns no text or a text shorter than 100 code
  units, then the response has \<^verbatim>\<open>isAiGenerated\<close> false and its plan is the text
  the fallback generator gives for the same four fields, whatever the store does.
\<close>

theorem exhausted_models_fallback:
  assumes "subject \<noteq> []" and "level \<noteq> []" and "duration \<noteq> []" and "goals \<noteq> []"
    and "\<forall>model\<in>set models.
           rejected (textGeneration model (build_prompt subject level duration goals))"
  shows "json_isAiGenerated (fst (generate_plan textGeneration add
            \<lparr>body_subject = Some subject, body_level = Some level,
             body_duration = Some duration, body_goals = Some goals\<rparr>)) = Some False \<and>
         json_plan (fst (generate_plan textGeneration add
            \<lparr>body_subject = Some subject, body_level = Some level,
             body_duration = Some duration, body_goals = Some goals\<rparr>)) =
           Some (generateFallbackPlan subject level duration goals)"
  unfolding generate_plan_exhausted [where tg = textGeneration, OF assms]
  by (simp add: empty_body_def split: added.splits)

theorem exhausted_models_fallback_witness:
  "list_all (\<lambda>model. rejected (inference_down model example_prompt)) models \<and>
   json_isAiGenerated (fst (generate_plan inference_down store_down example_request)) =
     Some False \<and>
   json_plan (fst (generate_plan inference_down store_down example_request)) =
     Some (generateFallbackPlan (lit ''Algebra'') (lit ''Beginner'') (lit ''6 weeks'')
       (lit ''Pass the exam''))"
proof -
  have down: "\<forall>model\<in>set models. rejected (inference_down model
      (build_prompt (lit ''Algebra'') (lit ''Beginner'') (lit ''6 weeks'') (lit ''Pass the exam'')))"
    by (simp add: inference_down_def rejected_def)
  then have "list_all (\<lambda>model. rejected (inference_down model example_prompt)) models"
    by (simp only: list_all_iff example_prompt_def)
  then show ?thesis
    using exhausted_models_fallback [where textGeneration = inference_down
        and add = store_down, OF example_fields down]
    by (simp add: example_request_def)
qed

section \<open>Acceptance of a generated text\<close>

text \<open>
  C1, in the words of the specification, lets the loop measure the generated text after
  the prompt is stripped and the text trimmed. The source compares \<^verbatim>\<open>response.generated_text.length\<close> with 100
  first, and strips and trims afterwards: a model that echoes the prompt of 231 code units
  and adds \<^verbatim>\<open>" ok"\<close> is accepted, and the plan of the response is
  \<^verbatim>\<open>"ok"\<close>, two code units long.
\<close>

theorem echoed_prompt_accepted:
  "echo_inference (hd models) example_prompt = Returned (Some (example_prompt @ lit '' ok'')) \<and>
   js_trim (replace_empty example_prompt (example_prompt @ lit '' ok'')) = lit ''ok'' \<and>
   length (lit ''ok'') < 100 \<and>
   json_isAiGenerated (fst (generate_plan echo_inference store_ok example_request)) = Some True \<and>
   json_modelUsed (fst (generate_plan echo_inference store_ok example_request)) =
     Some (hd models) \<and>
   json_plan (fst (generate_plan echo_inference store_ok example_request)) = Some (lit ''ok'')"
proof -
  have echo: "echo_inference (hd models)
      (build_prompt (lit ''Algebra'') (lit ''Beginner'') (lit ''6 weeks'') (lit ''Pass the exam'')) =
      Returned (Some (example_prompt @ lit '' ok''))"
    by (simp add: echo_inference_def example_prompt_def)
  have long: "100 \<le> length (example_prompt @ lit '' ok'')"
    by (simp add: length_example_prompt)
  have saved: "store_ok (ai_record (lit ''Algebra'') (lit ''Beginner'') (lit ''6 weeks'')
      (lit ''Pass the exam'')
      (js_trim (replace_empty (build_prompt (lit ''Algebra'') (lit ''Beginner'') (lit ''6 weeks'')
         (lit ''Pass the exam'')) (example_prompt @ lit '' ok''))) (hd models)) =
      Added (lit ''plan-1'')"
    by (simp add: store_ok_def)
  have first: "models = [] @ hd models # tl models"
    by (simp add: models_def)
  have none: "\<forall>m'\<in>set []. rejected (echo_inference m'
      (build_prompt (lit ''Algebra'') (lit ''Beginner'') (lit ''6 weeks'') (lit ''Pass the exam'')))"
    by simp
  from generate_plan_accept [where tg = echo_inference and add = store_ok,
      OF example_fields first none echo long saved]
  have "fst (generate_plan echo_inference store_ok example_request) =
      empty_body\<lparr>json_success := Some True, json_plan := Some (lit ''ok''),
        json_planId := Some (lit ''plan-1''), json_modelUsed := Some (hd models),
        json_isAiGenerated := Some True\<rparr>"
    by (simp add: example_request_def example_prompt_def [symmetric] strip_echo)
  moreover have "echo_inference (hd models) example_prompt =
      Returned (Some (example_prompt @ lit '' ok''))"
    by (simp add: echo_inference_def)
  ultimately show ?thesis
    by (simp add: strip_echo length_lit)
qed

text \<open>
  C1, as the code has it: for every candidate model, if every earlier candidate's call
  threw or returned no text or a text shorter than 100 code units, and this candidate
  returns a text that, as returned, is at least 100 code units long, and the write of
  its record succeeds, then the response carries this text with the first occurrence of
  the prompt removed and the ends trimmed (however short that is), and names this model;
  and a model whose text as returned is shorter than 100 code units is never the model
  of the response.
\<close>

theorem raw_length_gate:
  assumes "subject \<noteq> []" and "level \<noteq> []" and "duration \<noteq> []" and "goals \<noteq> []"
    and "models = earlier @ model # later"
    and "\<forall>m\<in>set earlier.
           rejected (textGeneration m (build_prompt subject level duration goals))"
    and "textGeneration model (build_prompt subject level duration goals) =
           Returned (Some generated_text)"
  shows "(100 \<le> length generated_text \<longrightarrow>
          add (ai_record subject level duration goals
            (js_trim (replace_empty (build_prompt subject level duration goals) generated_text))
            model) = Added planId \<longrightarrow>
          fst (generate_plan textGeneration add
            \<lparr>body_subject = Some subject, body_level = Some level,
             body_duration = Some duration, body_goals = Some goals\<rparr>) =
          empty_body\<lparr>json_success := Some True,
            json_plan := Some (js_trim (replace_empty
              (build_prompt subject level duration goals) generated_text)),
            json_planId := Some planId, json_modelUsed := Some model,
            json_isAiGenerated := Some True\<rparr>) \<and>
         (length generated_text < 100 \<longrightarrow>
          json_modelUsed (fst (generate_plan textGeneration add
            \<lparr>body_subject = Some subject, body_level = Some level,
             body_duration = Some duration, body_goals = Some goals\<rparr>)) \<noteq> Some model)"
proof (intro conjI impI)
  assume "100 \<le> length generated_text"
    and "add (ai_record subject level duration goals
            (js_trim (replace_empty (build_prompt subject level duration goals) generated_text))
            model) = Added planId"
  with assms show "fst (generate_plan textGeneration add
            \<lparr>body_subject = Some subject, body_level = Some level,
             body_duration = Some duration, body_goals = Some goals\<rparr>) =
          empty_body\<lparr>json_success := Some True,
            json_plan := Some (js_trim (replace_empty
              (build_prompt subject level duration goals) generated_text)),
            json_planId := Some planId, json_modelUsed := Some model,
            json_isAiGenerated := Some True\<rparr>"
    by (simp add: generate_plan_accept)
next
  let ?p = "build_prompt subject level duration goals"
  assume short: "length generated_text < 100"
  with assms(7) have rej: "rejected (textGeneration model ?p)"
    by (simp add: rejected_def)
  have member: "model \<in> set models"
    unfolding assms(5) by simp
  obtain sent le eff where loop:
    "try_models textGeneration add subject level duration goals ?p models None [] =
       (sent, le, eff)"
    by (cases "try_models textGeneration add subject level duration goals ?p models None []")
  show "json_modelUsed (fst (generate_plan textGeneration add
            \<lparr>body_subject = Some subject, body_level = Some level,
             body_duration = Some duration, body_goals = Some goals\<rparr>)) \<noteq> Some model"
  proof (cases sent)
    case None
    with loop member fallback_not_model show ?thesis
      unfolding generate_plan_loop [OF assms(1-4)]
      by (auto simp: empty_body_def split: added.splits)
  next
    case (Some r)
    with loop have "fst (try_models textGeneration add subject level duration goals ?p
        models None []) = Some r"
      by simp
    from try_models_sent [OF this] rej have "json_modelUsed r \<noteq> Some model"
      by auto
    with Some loop show ?thesis
      unfolding generate_plan_loop [OF assms(1-4)] by simp
  qed
qed

theorem raw_length_gate_witness:
  "100 \<le> length (example_prompt @ lit '' ok'') \<and>
   fst (generate_plan echo_inference store_ok example_request) =
     empty_body\<lparr>json_success := Some True, json_plan := Some (lit ''ok''),
       json_planId := Some (lit ''plan-1''), json_modelUsed := Some (hd models),
       json_isAiGenerated := Some True\<rparr> \<and>
   length (lit ''ok'') < 100 \<and>
   json_modelUsed (fst (generate_plan short_inference store_ok example_request)) \<noteq>
     Some (hd models)"
proof -
  let ?p = "build_prompt (lit ''Algebra'') (lit ''Beginner'') (lit ''6 weeks'')
      (lit ''Pass the exam'')"
  have first: "models = [] @ hd models # tl models"
    by (simp add: models_def)
  have none: "\<forall>m\<in>set []. rejected (echo_inference m ?p)"
      "\<forall>m\<in>set []. rejected (short_inference m ?p)"
    by simp_all
  have echo: "echo_inference (hd models) ?p = Returned (Some (example_prompt @ lit '' ok''))"
    by (simp add: echo_inference_def example_prompt_def)
  have short: "short_inference (hd models) ?p = Returned (Some (lit ''ok''))"
    by (simp add: short_inference_def)
  have long: "100 \<le> length (example_prompt @ lit '' ok'')"
    by (simp add: length_example_prompt)
  have few: "length (lit ''ok'') < 100"
    by (simp add: length_lit)
  have saved: "store_ok (ai_record (lit ''Algebra'') (lit ''Beginner'') (lit ''6 weeks'')
      (lit ''Pass the exam'') (js_trim (replace_empty ?p (example_prompt @ lit '' ok'')))
      (hd models)) = Added (lit ''plan-1'')"
    by (simp add: store_ok_def)
  show ?thesis
    using raw_length_gate [where textGeneration = echo_inference and add = store_ok
        and planId = "lit ''plan-1''", OF example_fields first none(1) echo]
      raw_length_gate [where textGeneration = short_inference and add = store_ok,
        OF example_fields first none(2) short]
      long few saved
    by (simp add: example_request_def example_prompt_def [symmetric] strip_echo)
qed

section \<open>A write of a generated plan that fails\<close>

text \<open>
  The write of a generated plan stands inside the \<^verbatim>\<open>try\<close> block of the loop over the
  models, whose \<^verbatim>\<open>catch\<close> only records the error: when \<^verbatim>\<open>add\<close> throws, the
  plan is dropped and the loop calls the next model. The write of the fallback plan has a
  \<^verbatim>\<open>try\<close> block of its own, which returns the plan with a warning.
\<close>

lemma first_write_fails:
  assumes "tg (hd models) example_prompt = Returned (Some long_text)"
    and "add (ai_record (lit ''Algebra'') (lit ''Beginner'') (lit ''6 weeks'')
           (lit ''Pass the exam'') long_text (hd models)) = AddThrew e"
  shows "try_models tg add (lit ''Algebra'') (lit ''Beginner'') (lit ''6 weeks'')
      (lit ''Pass the exam'') example_prompt models None [] =
    try_models tg add (lit ''Algebra'') (lit ''Beginner'') (lit ''6 weeks'')
      (lit ''Pass the exam'') example_prompt (tl models) (Some e)
      [TextGeneration (hd models) example_prompt,
       StoreAdd (ai_record (lit ''Algebra'') (lit ''Beginner'') (lit ''6 weeks'')
         (lit ''Pass the exam'') long_text (hd models))]"
proof -
  have "100 \<le> length long_text"
    by (simp add: long_text_def)
  from try_models_store_failure [where tg = tg and add = add and p = example_prompt
      and rest = "tl models" and le = None and eff = "[]", OF assms(1) this]
    assms(2)
  show ?thesis
    by (subst models_split) (simp add: strip_long_text del: try_models.simps)
qed

text \<open>
  C2: the specification says that no later candidate is called, and that
  \<^verbatim>\<open>modelUsed\<close> is the first candidate, whenever the first candidate returns at
  least 100 code units. The code does so only when the write succeeds. On the example
  request, with a first model that returns 120 code units and a store that is down, the
  handler writes the record of the first model, then calls the four later candidates, and
  answers with \<^verbatim>\<open>modelUsed\<close> \<^verbatim>\<open>fallback\<close>.
\<close>

theorem unsaved_first_model_retried:
  "first_model_inference (hd models) example_prompt = Returned (Some long_text) \<and>
   length long_text = 120 \<and>
   length (tl models) = 4 \<and>
   snd (generate_plan first_model_inference store_down example_request) =
     [TextGeneration (hd models) example_prompt,
      StoreAdd (ai_record (lit ''Algebra'') (lit ''Beginner'') (lit ''6 weeks'')
        (lit ''Pass the exam'') long_text (hd models))] @
     map (\<lambda>model. TextGeneration model example_prompt) (tl models) @
     [StoreAdd (fallback_record (lit ''Algebra'') (lit ''Beginner'') (lit ''6 weeks'')
        (lit ''Pass the exam'')
        (generateFallbackPlan (lit ''Algebra'') (lit ''Beginner'') (lit ''6 weeks'')
           (lit ''Pass the exam'')))] \<and>
   json_modelUsed (fst (generate_plan first_model_inference store_down example_request)) =
     Some (lit ''fallback'')"
proof -
  have first: "first_model_inference (hd models) example_prompt = Returned (Some long_text)"
    by (simp add: first_model_inference_def)
  have "\<forall>m\<in>set (tl models). rejected (first_model_inference m example_prompt)"
    by (auto simp: first_model_inference_def rejected_def dest: later_models)
  from try_models_rejected [where tg = first_model_inference and p = example_prompt
      and add = store_down and s = "lit ''Algebra''" and l = "lit ''Beginner''"
      and d = "lit ''6 weeks''" and g = "lit ''Pass the exam''"
      and le = "Some (lit ''unavailable'')"
      and eff = "[TextGeneration (hd models) example_prompt,
         StoreAdd (ai_record (lit ''Algebra'') (lit ''Beginner'') (lit ''6 weeks'')
           (lit ''Pass the exam'') long_text (hd models))]", OF this]
  obtain le' where "try_models first_model_inference store_down (lit ''Algebra'')
      (lit ''Beginner'') (lit ''6 weeks'') (lit ''Pass the exam'') example_prompt models None [] =
    (None, le',
     [TextGeneration (hd models) example_prompt,
      StoreAdd (ai_record (lit ''Algebra'') (lit ''Beginner'') (lit ''6 weeks'')
        (lit ''Pass the exam'') long_text (hd models))] @
     map (\<lambda>model. TextGeneration model example_prompt) (tl models))"
    unfolding first_write_fails [where tg = first_model_inference and add = store_down
        and e = "lit ''unavailable''", OF first store_down_def]
    by blast
  then have "generate_plan first_model_inference store_down example_request =
    (empty_body\<lparr>json_success := Some True,
       json_plan := Some (generateFallbackPlan (lit ''Algebra'') (lit ''Beginner'')
         (lit ''6 weeks'') (lit ''Pass the exam'')),
       json_modelUsed := Some (lit ''fallback''),
       json_isAiGenerated := Some False,
       json_warning := Some (lit ''Fallback plan not saved due to DB error'')\<rparr>,
     [TextGeneration (hd models) example_prompt,
      StoreAdd (ai_record (lit ''Algebra'') (lit ''Beginner'') (lit ''6 weeks'')
        (lit ''Pass the exam'') long_text (hd models))] @
     map (\<lambda>model. TextGeneration model example_prompt) (tl models) @
     [StoreAdd (fallback_record (lit ''Algebra'') (lit ''Beginner'') (lit ''6 weeks'')
        (lit ''Pass the exam'')
        (generateFallbackPlan (lit ''Algebra'') (lit ''Beginner'') (lit ''6 weeks'')
           (lit ''Pass the exam'')))])"
    unfolding example_request_def generate_plan_loop [OF example_fields]
      example_prompt_def [symmetric]
    by (simp add: store_down_def)
  with first show ?thesis
    by (simp add: long_text_def models_def empty_body_def)
qed

text \<open>
  C3: the specification says that a failed write of a computed plan, generated or
  fallback, is swallowed, that the response still returns that plan, and that the failure
  shows as a warning. The code does so for the fallback plan only. On
  the example request, with two models that answer and a store that fails on the first
  write only, the plan computed from the first model (120 code units) is written without
  success and dropped; the response returns the plan of the second model (150 code
  units), and has no warning.
\<close>

theorem unsaved_plan_replaced:
  "two_model_inference (hd models) example_prompt = Returned (Some long_text) \<and>
   store_failing_first (ai_record (lit ''Algebra'') (lit ''Beginner'') (lit ''6 weeks'')
     (lit ''Pass the exam'') long_text (hd models)) = AddThrew (lit ''unavailable'') \<and>
   snd (generate_plan two_model_inference store_failing_first example_request) =
     [TextGeneration (hd models) example_prompt,
      StoreAdd (ai_record (lit ''Algebra'') (lit ''Beginner'') (lit ''6 weeks'')
        (lit ''Pass the exam'') long_text (hd models)),
      TextGeneration (hd (tl models)) example_prompt,
      StoreAdd (ai_record (lit ''Algebra'') (lit ''Beginner'') (lit ''6 weeks'')
        (lit ''Pass the exam'') other_text (hd (tl models)))] \<and>
   json_plan (fst (generate_plan two_model_inference store_failing_first example_request)) =
     Some other_text \<and>
   other_text \<noteq> long_text \<and>
   json_modelUsed (fst (generate_plan two_model_inference store_failing_first example_request)) =
     Some (hd (tl models)) \<and>
   json_warning (fst (generate_plan two_model_inference store_failing_first example_request)) =
     None"
proof -
  let ?doc1 = "ai_record (lit ''Algebra'') (lit ''Beginner'') (lit ''6 weeks'')
      (lit ''Pass the exam'') long_text (hd models)"
  let ?doc2 = "ai_record (lit ''Algebra'') (lit ''Beginner'') (lit ''6 weeks'')
      (lit ''Pass the exam'') other_text (hd (tl models))"
  have first: "two_model_inference (hd models) example_prompt = Returned (Some long_text)"
    by (simp add: two_model_inference_def)
  have fails: "store_failing_first ?doc1 = AddThrew (lit ''unavailable'')"
    by (simp add: store_failing_first_def ai_record_def)
  have second: "two_model_inference (hd (tl models)) example_prompt =
      Returned (Some other_text)"
    by (simp add: two_model_inference_def second_model(2))
  have long: "100 \<le> length other_text"
    by (simp add: other_text_def)
  have saved: "store_failing_first (ai_record (lit ''Algebra'') (lit ''Beginner'')
      (lit ''6 weeks'') (lit ''Pass the exam'')
      (js_trim (replace_empty example_prompt other_text)) (hd (tl models))) =
      Added (lit ''plan-2'')"
    by (simp add: store_failing_first_def ai_record_def second_model(2))
  have none: "\<forall>m\<in>set []. rejected (two_model_inference m example_prompt)"
    by simp
  have rest: "tl models = [] @ hd (tl models) # tl (tl models)"
    using second_model(1) by simp
  from try_models_accept [where tg = two_model_inference and p = example_prompt
      and add = store_failing_first and s = "lit ''Algebra''" and l = "lit ''Beginner''"
      and d = "lit ''6 weeks''" and g = "lit ''Pass the exam''"
      and post = "tl (tl models)" and le = "Some (lit ''unavailable'')"
      and eff = "[TextGeneration (hd models) example_prompt, StoreAdd ?doc1]",
      OF none second long saved, folded rest]
  obtain le' where "try_models two_model_inference store_failing_first (lit ''Algebra'')
      (lit ''Beginner'') (lit ''6 weeks'') (lit ''Pass the exam'') example_prompt models None [] =
    (Some (empty_body\<lparr>json_success := Some True, json_plan := Some other_text,
        json_planId := Some (lit ''plan-2''), json_modelUsed := Some (hd (tl models)),
        json_isAiGenerated := Some True\<rparr>),
     le',
     [TextGeneration (hd models) example_prompt, StoreAdd ?doc1,
      TextGeneration (hd (tl models)) example_prompt, StoreAdd ?doc2])"
    unfolding first_write_fails [where tg = two_model_inference
        and add = store_failing_first and e = "lit ''unavailable''", OF first fails]
      strip_other_text
    by auto
  then have "generate_plan two_model_inference store_failing_first example_request =
    (empty_body\<lparr>json_success := Some True, json_plan := Some other_text,
        json_planId := Some (lit ''plan-2''), json_modelUsed := Some (hd (tl models)),
        json_isAiGenerated := Some True\<rparr>,
     [TextGeneration (hd models) example_prompt, StoreAdd ?doc1,
      TextGeneration (hd (tl models)) example_prompt, StoreAdd ?doc2])"
    unfolding example_request_def generate_plan_loop [OF example_fields]
      example_prompt_def [symmetric]
    by simp
  moreover have "other_text \<noteq> long_text"
    by (simp add: other_text_def long_text_def)
  ultimately show ?thesis
    using first fails by (simp add: empty_body_def)
qed

section \<open>What holds of the two writes\<close>

text \<open>
  When the first candidate returns at least 100 code units and the write of its record
  succeeds, the handler calls no other model: its effects are that one call and that one
  write, and \<^verbatim>\<open>modelUsed\<close> is the first candidate.
\<close>

theorem first_model_saved:
  assumes "subject \<noteq> []" and "level \<noteq> []" and "duration \<noteq> []" and "goals \<noteq> []"
    and "textGeneration (hd models) (build_prompt subject level duration goals) =
           Returned (Some generated_text)"
    and "100 \<le> length generated_text"
    and "add (ai_record subject level duration goals
           (js_trim (replace_empty (build_prompt subject level duration goals) generated_text))
           (hd models)) = Added planId"
  shows "snd (generate_plan textGeneration add
            \<lparr>body_subject = Some subject, body_level = Some level,
             body_duration = Some duration, body_goals = Some goals\<rparr>) =
           [TextGeneration (hd models) (build_prompt subject level duration goals),
            StoreAdd (ai_record subject level duration goals
              (js_trim (replace_empty (build_prompt subject level duration goals)
                 generated_text)) (hd models))] \<and>
         json_modelUsed (fst (generate_plan textGeneration add
            \<lparr>body_subject = Some subject, body_level = Some level,
             body_duration = Some duration, body_goals = Some goals\<rparr>)) = Some (hd models)"
proof -
  have first: "models = [] @ hd models # tl models"
    by (simp add: models_def)
  have none: "\<forall>m'\<in>set []. rejected (textGeneration m'
      (build_prompt subject level duration goals))"
    by simp
  show ?thesis
    unfolding generate_plan_accept [where tg = textGeneration and add = add,
        OF assms(1-4) first none assms(5-7)]
    by (simp add: empty_body_def)
qed

theorem first_model_saved_witness:
  "100 \<le> length (example_prompt @ lit '' ok'') \<and>
   snd (generate_plan echo_inference store_ok example_request) =
     [TextGeneration (hd models) example_prompt,
      StoreAdd (ai_record (lit ''Algebra'') (lit ''Beginner'') (lit ''6 weeks'')
        (lit ''Pass the exam'') (lit ''ok'') (hd models))] \<and>
   json_modelUsed (fst (generate_plan echo_inference store_ok example_request)) =
     Some (hd models)"
proof -
  let ?p = "build_prompt (lit ''Algebra'') (lit ''Beginner'') (lit ''6 weeks'')
      (lit ''Pass the exam'')"
  have echo: "echo_inference (hd models) ?p = Returned (Some (example_prompt @ lit '' ok''))"
    by (simp add: echo_inference_def example_prompt_def)
  have long: "100 \<le> length (example_prompt @ lit '' ok'')"
    by (simp add: length_example_prompt)
  have saved: "store_ok (ai_record (lit ''Algebra'') (lit ''Beginner'') (lit ''6 weeks'')
      (lit ''Pass the exam'') (js_trim (replace_empty ?p (example_prompt @ lit '' ok'')))
      (hd models)) = Added (lit ''plan-1'')"
    by (simp add: store_ok_def)
  show ?thesis
    using first_model_saved [where textGeneration = echo_inference and add = store_ok,
        OF example_fields echo long saved] long
    by (simp add: example_request_def example_prompt_def [symmetric] strip_echo)
qed

text \<open>
  When every candidate model call fails or returns no text or a text shorter than 100
  code units, and the write of the fallback record throws, the response still has status
  200 and returns the fallback plan, with no plan id and with the warning
  \<^verbatim>\<open>Fallback plan not saved due to DB error\<close>.
\<close>

theorem fallback_write_failure:
  assumes "subject \<noteq> []" and "level \<noteq> []" and "duration \<noteq> []" and "goals \<noteq> []"
    and "\<forall>model\<in>set models.
           rejected (textGeneration model (build_prompt subject level duration goals))"
    and "add (fallback_record subject level duration goals
           (generateFallbackPlan subject level duration goals)) = AddThrew error"
  shows "fst (generate_plan textGeneration add
            \<lparr>body_subject = Some subject, body_level = Some level,
             body_duration = Some duration, body_goals = Some goals\<rparr>) =
         \<lparr>status = 200, json_error = None, json_success = Some True,
          json_plan = Some (generateFallbackPlan subject level duration goals),
          json_planId = None, json_modelUsed = Some (lit ''fallback''),
          json_isAiGenerated = Some False, json_message = None,
          json_warning = Some (lit ''Fallback plan not saved due to DB error'')\<rparr>"
  unfolding generate_plan_exhausted [where tg = textGeneration, OF assms(1-5)]
  by (simp add: assms(6) empty_body_def)

theorem fallback_write_failure_witness:
  "list_all (\<lambda>model. rejected (inference_down model example_prompt)) models \<and>
   store_down (fallback_record (lit ''Algebra'') (lit ''Beginner'') (lit ''6 weeks'')
     (lit ''Pass the exam'')
     (generateFallbackPlan (lit ''Algebra'') (lit ''Beginner'') (lit ''6 weeks'')
        (lit ''Pass the exam''))) = AddThrew (lit ''unavailable'') \<and>
   fst (generate_plan inference_down store_down example_request) =
     \<lparr>status = 200, json_error = None, json_success = Some True,
      json_plan = Some (generateFallbackPlan (lit ''Algebra'') (lit ''Beginner'')
        (lit ''6 weeks'') (lit ''Pass the exam'')),
      json_planId = None, json_modelUsed = Some (lit ''fallback''),
      json_isAiGenerated = Some False, json_message = None,
      json_warning = Some (lit ''Fallback plan not saved due to DB error'')\<rparr>"
proof -
  have down: "\<forall>model\<in>set models. rejected (inference_down model
      (build_prompt (lit ''Algebra'') (lit ''Beginner'') (lit ''6 weeks'') (lit ''Pass the exam'')))"
    by (simp add: inference_down_def rejected_def)
  then have all: "list_all (\<lambda>model. rejected (inference_down model example_prompt)) models"
    by (simp only: list_all_iff example_prompt_def)
  have thrown: "store_down (fallback_record (lit ''Algebra'') (lit ''Beginner'')
      (lit ''6 weeks'') (lit ''Pass the exam'')
      (generateFallbackPlan (lit ''Algebra'') (lit ''Beginner'') (lit ''6 weeks'')
         (lit ''Pass the exam''))) = AddThrew (lit ''unavailable'')"
    by (simp add: store_down_def)
  show ?thesis
    using fallback_write_failure [where textGeneration = inference_down and add = store_down,
        OF example_fields down thrown] all thrown
    by (simp add: example_request_def)
qed

text \<open>
  Two runs of the handler on one request that both fall back return the same plan,
  whatever the models and the store did in each: the plan of the response depends on the
  four fields only.
\<close>

lemma fallback_plan_independent_of_services:
  assumes "subject \<noteq> []" and "level \<noteq> []" and "duration \<noteq> []" and "goals \<noteq> []"
    and "\<forall>model\<in>set models.
           rejected (textGeneration1 model (build_prompt subject level duration goals))"
    and "\<forall>model\<in>set models.
           rejected (textGeneration2 model (build_prompt subject level duration goals))"
  shows "json_plan (fst (generate_plan textGeneration1 add1
            \<lparr>body_subject = Some subject, body_level = Some level,
             body_duration = Some duration, body_goals = Some goals\<rparr>)) =
         json_plan (fst (generate_plan textGeneration2 add2
            \<lparr>body_subject = Some subject, body_level = Some level,
             body_duration = Some duration, body_goals = Some goals\<rparr>))"
  unfolding generate_plan_exhausted [where tg = textGeneration1, OF assms(1-5)]
    generate_plan_exhausted [where tg = textGeneration2, OF assms(1-4) assms(6)]
  by (simp add: empty_body_def split: added.splits)

end
